theory Spec2Isabelle
  imports Main
begin

section \<open>JavaScript values\<close>

text \<open>
  A parsed JSON document. An object is the list of its own properties in insertion
  order, each key once (\<open>JSON.parse\<close> keeps one value per key). JSON numbers are
  modelled as integers: the client never computes with them, it passes them through.
\<close>

datatype json =
    JNull
  | JBool bool
  | JNum int
  | JStr string
  | JArr "json list"
  | JObj "(string \<times> json) list"

text \<open>
  A JavaScript number as the client receives it in \<open>limit\<close> and
  \<open>observationId\<close>: an integer, or \<open>NaN\<close> (the command line passes
  \<open>parseInt(opts.limit, 10)\<close>). Fractions and infinities are left out; for the
  truthiness test they behave as a non-zero integer does.
\<close>

datatype number = NaN | Num int

text \<open>
  A thrown value: an \<open>Error\<close> object with its message, or any other value
  (\<open>err instanceof Error\<close> tells them apart in \<open>getStatus\<close>).
\<close>

datatype thrown = JsError string | NonError json

fun truthy_number :: "number \<Rightarrow> bool" where
  "truthy_number NaN = False"
| "truthy_number (Num n) = (n \<noteq> 0)"

definition truthy_string :: "string \<Rightarrow> bool" where
  "truthy_string s = (s \<noteq> [])"

text \<open>\<open>String(n)\<close>: the decimal numeral (below \<open>10^21\<close> in magnitude, where
  JavaScript prints no exponent).\<close>

fun digits :: "nat \<Rightarrow> string" where
  "digits n = (if n < 10 then [''0123456789'' ! n]
               else digits (n div 10) @ [''0123456789'' ! (n mod 10)])"

declare digits.simps [simp del]

fun String_number :: "number \<Rightarrow> string" where
  "String_number NaN = ''NaN''"
| "String_number (Num i) = (if i < 0 then ''-'' @ digits (nat (- i)) else digits (nat i))"

text \<open>
  Property access \<open>data.key\<close> on a parsed JSON value, for the keys the client reads
  (\<open>results\<close>, \<open>observations\<close>, \<open>id\<close>, \<open>version\<close>): reading a property of
  \<open>null\<close> throws a \<open>TypeError\<close>; an object gives the property or
  \<open>undefined\<close> (\<open>None\<close>); an array, string, number or boolean has none of these
  keys and gives \<open>undefined\<close>.
\<close>

fun get_prop :: "json \<Rightarrow> string \<Rightarrow> thrown + json option" where
  "get_prop JNull k = Inl (JsError (''Cannot read properties of null (reading '' @ k @ '')''))"
| "get_prop (JObj kvs) k = Inr (map_of kvs k)"
| "get_prop (JBool b) k = Inr None"
| "get_prop (JNum n) k = Inr None"
| "get_prop (JStr s) k = Inr None"
| "get_prop (JArr xs) k = Inr None"

text \<open>\<open>a ?? b\<close>: \<open>b\<close> when \<open>a\<close> is \<open>undefined\<close> or \<open>null\<close>, else \<open>a\<close>.\<close>

fun nullish_or :: "json option \<Rightarrow> json \<Rightarrow> json" where
  "nullish_or None b = b"
| "nullish_or (Some JNull) b = b"
| "nullish_or (Some a) b = a"

text \<open>
  \<open>JSON.stringify\<close> of an object literal, as a JSON value: a property whose value is
  \<open>undefined\<close> is left out.
\<close>

fun stringify_object :: "(string \<times> json option) list \<Rightarrow> (string \<times> json) list" where
  "stringify_object [] = []"
| "stringify_object ((k, None) # kvs) = stringify_object kvs"
| "stringify_object ((k, Some v) # kvs) = (k, v) # stringify_object kvs"

section \<open>Requests, responses and the network\<close>

datatype http_method = GET | POST

text \<open>
  One call of \<open>fetch\<close>. \<open>rq_url\<close> is the base URL followed by the path;
  \<open>rq_query\<close> is the \<open>URLSearchParams\<close> the URL ends with, as key/value pairs
  in insertion order (its percent-encoding is not modelled; it is empty for a request
  with no query); \<open>rq_body\<close> is the value given to \<open>JSON.stringify\<close>;
  \<open>rq_timeout\<close> is the \<open>AbortSignal.timeout\<close> in milliseconds.
\<close>

record request =
  rq_method :: http_method
  rq_url :: string
  rq_query :: "(string \<times> string) list"
  rq_headers :: "(string \<times> string) list"
  rq_body :: "json option"
  rq_timeout :: nat

text \<open>
  A response: its status and what \<open>res.json()\<close> gives, the parsed body or the
  error it throws on a body that is not JSON.
\<close>

record response =
  rs_status :: nat
  rs_json :: "thrown + json"

definition ok :: "response \<Rightarrow> bool" where
  "ok r = (200 \<le> rs_status r \<and> rs_status r \<le> 299)"

text \<open>
  \<open>fetch\<close> either rejects (connection refused, DNS failure, timeout) or resolves
  with a response, whatever its status.
\<close>

datatype outcome = Rejected thrown | Resolved response

text \<open>
  The network answers the \<open>n\<close>-th request of a run; the trace lists the requests
  issued so far with their outcomes. An asynchronous computation takes the network
  and the trace, and gives the longer trace and either the value thrown or the
  value returned.
\<close>

type_synonym network = "nat \<Rightarrow> request \<Rightarrow> outcome"
type_synonym trace = "(request \<times> outcome) list"
type_synonym 'a io = "network \<Rightarrow> trace \<Rightarrow> trace \<times> (thrown + 'a)"

definition io_return :: "'a \<Rightarrow> 'a io" where
  "io_return a net tr = (tr, Inr a)"

definition io_throw :: "thrown \<Rightarrow> 'a io" where
  "io_throw e net tr = (tr, Inl e)"

definition io_lift :: "thrown + 'a \<Rightarrow> 'a io" where
  "io_lift x net tr = (tr, x)"

definition io_bind :: "'a io \<Rightarrow> ('a \<Rightarrow> 'b io) \<Rightarrow> 'b io" where
  "io_bind m f net tr =
     (case m net tr of
        (tr', Inl e) \<Rightarrow> (tr', Inl e)
      | (tr', Inr a) \<Rightarrow> f a net tr')"

text \<open>\<open>try { m } catch (err) { h err }\<close>\<close>

definition try_catch :: "'a io \<Rightarrow> (thrown \<Rightarrow> 'a io) \<Rightarrow> 'a io" where
  "try_catch m h net tr =
     (case m net tr of
        (tr', Inl e) \<Rightarrow> h e net tr'
      | (tr', Inr a) \<Rightarrow> (tr', Inr a))"

text \<open>\<open>await fetch(...)\<close>: the request is recorded; a rejection is thrown.\<close>

definition await_fetch :: "request \<Rightarrow> response io" where
  "await_fetch rq net tr =
     (let out = net (length tr) rq
      in (tr @ [(rq, out)],
          case out of Rejected e \<Rightarrow> Inl e | Resolved r \<Rightarrow> Inr r))"

text \<open>\<open>await res.json()\<close>\<close>

definition await_json :: "response \<Rightarrow> json io" where
  "await_json r = io_lift (rs_json r)"

section \<open>The data model of the client\<close>

datatype obs_type = Decision | Bugfix | Feature | Refactor | Discovery | Change

fun type_name :: "obs_type \<Rightarrow> string" where
  "type_name Decision = ''decision''"
| "type_name Bugfix = ''bugfix''"
| "type_name Feature = ''feature''"
| "type_name Refactor = ''refactor''"
| "type_name Discovery = ''discovery''"
| "type_name Change = ''change''"

text \<open>An optional field is an \<open>option\<close>: \<open>None\<close> is \<open>undefined\<close>.\<close>

record SearchOptions =
  so_limit :: "number option"
  so_type :: "string option"
  so_projectPath :: "string option"
  so_maxDate :: "string option"

record TimelineOptions =
  to_observationId :: "number option"
  to_limit :: "number option"
  to_before :: "bool option"
  to_after :: "bool option"

record ContextOptions =
  co_projectPath :: "string option"
  co_limit :: "number option"

record AddObservationParams =
  ap_type :: "obs_type option"
  ap_content :: string
  ap_concepts :: "string list option"
  ap_files :: "string list option"
  ap_sessionId :: "string option"

text \<open>The options of \<open>searchByType\<close>: \<open>{ limit?: number }\<close>.\<close>

record ByTypeOptions =
  bo_limit :: "number option"

record ClaudeMemClient =
  baseUrl :: string

text \<open>
  The constructor: \<open>baseUrl = "http://localhost:37777"\<close> when the argument is
  \<open>undefined\<close>, and \<open>baseUrl.replace(/\/$/, "")\<close> drops one trailing slash.
\<close>

definition strip_trailing_slash :: "string \<Rightarrow> string" where
  "strip_trailing_slash s = (if s \<noteq> [] \<and> last s = CHR ''/'' then butlast s else s)"

definition new_ClaudeMemClient :: "string option \<Rightarrow> ClaudeMemClient" where
  "new_ClaudeMemClient u =
     \<lparr>baseUrl = strip_trailing_slash
        (case u of None \<Rightarrow> ''http://localhost:37777'' | Some s \<Rightarrow> s)\<rparr>"

text \<open>The results of the two methods that return a record.\<close>

record status_result =
  st_running :: bool
  st_version :: "json option"
  st_error :: "string option"

record add_result =
  ar_success :: bool
  ar_id :: "json option"

section \<open>Building requests\<close>

text \<open>
  \<open>...(v && { key: String(v) })\<close> and \<open>...(v && { key: v })\<close> inside an object
  literal: spreading a falsy value (\<open>undefined\<close>, \<open>0\<close>, \<open>NaN\<close>, the empty
  string) adds nothing.
\<close>

definition spread_number :: "number option \<Rightarrow> string \<Rightarrow> (string \<times> string) list" where
  "spread_number v k =
     (case v of
        None \<Rightarrow> []
      | Some n \<Rightarrow> if truthy_number n then [(k, String_number n)] else [])"

definition spread_string :: "string option \<Rightarrow> string \<Rightarrow> (string \<times> string) list" where
  "spread_string v k =
     (case v of
        None \<Rightarrow> []
      | Some s \<Rightarrow> if truthy_string s then [(k, s)] else [])"

definition json_headers :: "(string \<times> string) list" where
  "json_headers = [(''Content-Type'', ''application/json'')]"

definition status_request :: "ClaudeMemClient \<Rightarrow> request" where
  "status_request c =
     \<lparr>rq_method = GET, rq_url = baseUrl c @ ''/api/health'', rq_query = [],
      rq_headers = [], rq_body = None, rq_timeout = 3000\<rparr>"

definition search_params :: "string \<Rightarrow> SearchOptions \<Rightarrow> (string \<times> string) list" where
  "search_params q opts =
     [(''query'', q)]
     @ spread_number (so_limit opts) ''limit''
     @ spread_string (so_type opts) ''type''
     @ spread_string (so_maxDate opts) ''max_date''"

definition search_request :: "ClaudeMemClient \<Rightarrow> string \<Rightarrow> SearchOptions \<Rightarrow> request" where
  "search_request c q opts =
     \<lparr>rq_method = GET, rq_url = baseUrl c @ ''/api/search'',
      rq_query = search_params q opts,
      rq_headers = json_headers, rq_body = None, rq_timeout = 10000\<rparr>"

definition timeline_params :: "TimelineOptions \<Rightarrow> (string \<times> string) list" where
  "timeline_params opts =
     spread_number (to_observationId opts) ''observation_id''
     @ spread_number (to_limit opts) ''limit''"

definition timeline_request :: "ClaudeMemClient \<Rightarrow> TimelineOptions \<Rightarrow> request" where
  "timeline_request c opts =
     \<lparr>rq_method = GET, rq_url = baseUrl c @ ''/api/timeline'',
      rq_query = timeline_params opts,
      rq_headers = json_headers, rq_body = None, rq_timeout = 10000\<rparr>"

definition context_params :: "ContextOptions \<Rightarrow> (string \<times> string) list" where
  "context_params opts =
     spread_string (co_projectPath opts) ''project_path''
     @ spread_number (co_limit opts) ''limit''"

definition recent_request :: "ClaudeMemClient \<Rightarrow> ContextOptions \<Rightarrow> request" where
  "recent_request c opts =
     \<lparr>rq_method = GET, rq_url = baseUrl c @ ''/api/context/recent'',
      rq_query = context_params opts,
      rq_headers = json_headers, rq_body = None, rq_timeout = 10000\<rparr>"

definition inject_request :: "ClaudeMemClient \<Rightarrow> ContextOptions \<Rightarrow> request" where
  "inject_request c opts =
     \<lparr>rq_method = GET, rq_url = baseUrl c @ ''/api/context/inject'',
      rq_query = context_params opts,
      rq_headers = json_headers, rq_body = None, rq_timeout = 10000\<rparr>"

definition observation_body :: "AddObservationParams \<Rightarrow> json" where
  "observation_body params =
     JObj (stringify_object
       [(''type'', map_option (\<lambda>t. JStr (type_name t)) (ap_type params)),
        (''content'', Some (JStr (ap_content params))),
        (''concepts'', Some (JArr (map JStr
            (case ap_concepts params of None \<Rightarrow> [] | Some cs \<Rightarrow> cs)))),
        (''files'', Some (JArr (map JStr
            (case ap_files params of None \<Rightarrow> [] | Some fs \<Rightarrow> fs)))),
        (''session_id'', map_option JStr (ap_sessionId params))])"

definition observation_request :: "ClaudeMemClient \<Rightarrow> AddObservationParams \<Rightarrow> request" where
  "observation_request c params =
     \<lparr>rq_method = POST, rq_url = baseUrl c @ ''/api/sessions/observations'',
      rq_query = [],
      rq_headers = json_headers, rq_body = Some (observation_body params),
      rq_timeout = 10000\<rparr>"

definition stats_request :: "ClaudeMemClient \<Rightarrow> request" where
  "stats_request c =
     \<lparr>rq_method = GET, rq_url = baseUrl c @ ''/api/stats'', rq_query = [],
      rq_headers = json_headers, rq_body = None, rq_timeout = 5000\<rparr>"

definition by_type_params :: "obs_type option \<Rightarrow> ByTypeOptions \<Rightarrow> (string \<times> string) list" where
  "by_type_params ty opts =
     [(''type'', case ty of None \<Rightarrow> ''discovery'' | Some t \<Rightarrow> type_name t)]
     @ spread_number (bo_limit opts) ''limit''"

definition by_type_request ::
  "ClaudeMemClient \<Rightarrow> obs_type option \<Rightarrow> ByTypeOptions \<Rightarrow> request" where
  "by_type_request c ty opts =
     \<lparr>rq_method = GET, rq_url = baseUrl c @ ''/api/search/by-type'',
      rq_query = by_type_params ty opts,
      rq_headers = json_headers, rq_body = None, rq_timeout = 10000\<rparr>"

definition how_it_works_request :: "ClaudeMemClient \<Rightarrow> string \<Rightarrow> request" where
  "how_it_works_request c q =
     \<lparr>rq_method = GET, rq_url = baseUrl c @ ''/api/how-it-works'',
      rq_query = [(''query'', q)],
      rq_headers = json_headers, rq_body = None, rq_timeout = 10000\<rparr>"

section \<open>The methods of the client\<close>

text \<open>
  \<open>data.key ?? data ?? []\<close>, the expression every list-returning method ends with
  (\<open>key\<close> is \<open>results\<close> or \<open>observations\<close>).
\<close>

definition unwrap :: "string \<Rightarrow> json \<Rightarrow> json io" where
  "unwrap key data =
     io_bind (io_lift (get_prop data key)) (\<lambda>field.
       io_return (nullish_or (Some (nullish_or field data)) (JArr [])))"

definition getStatus :: "ClaudeMemClient \<Rightarrow> status_result io" where
  "getStatus c =
     try_catch
       (io_bind (await_fetch (status_request c)) (\<lambda>res.
          if ok res then
            io_bind (await_json res) (\<lambda>data.
            io_bind (io_lift (get_prop data ''version'')) (\<lambda>v.
              io_return \<lparr>st_running = True, st_version = v, st_error = None\<rparr>))
          else
            io_return \<lparr>st_running = False, st_version = None,
                       st_error = Some (''HTTP '' @ digits (rs_status res))\<rparr>))
       (\<lambda>err.
          io_return \<lparr>st_running = False, st_version = None,
                     st_error = Some (case err of JsError m \<Rightarrow> m
                                      | NonError v \<Rightarrow> ''Connection failed'')\<rparr>)"

text \<open>
  The list-returning methods give back a JSON value, not a list: the source returns
  whatever \<open>data.key ?? data ?? []\<close> evaluates to. The diagnostics written with
  \<open>console.error\<close> in the handlers are not modelled.
\<close>

definition search :: "ClaudeMemClient \<Rightarrow> string \<Rightarrow> SearchOptions \<Rightarrow> json io" where
  "search c q opts =
     try_catch
       (io_bind (await_fetch (search_request c q opts)) (\<lambda>res.
          if \<not> ok res then
            io_throw (JsError (''Search failed: '' @ digits (rs_status res)))
          else
            io_bind (await_json res) (unwrap ''results'')))
       (\<lambda>err. io_return (JArr []))"

definition getTimeline :: "ClaudeMemClient \<Rightarrow> TimelineOptions \<Rightarrow> json io" where
  "getTimeline c opts =
     try_catch
       (io_bind (await_fetch (timeline_request c opts)) (\<lambda>res.
          if \<not> ok res then
            io_throw (JsError (''Timeline failed: '' @ digits (rs_status res)))
          else
            io_bind (await_json res) (unwrap ''observations'')))
       (\<lambda>err. io_return (JArr []))"

definition getRecentContext :: "ClaudeMemClient \<Rightarrow> ContextOptions \<Rightarrow> json io" where
  "getRecentContext c opts =
     try_catch
       (io_bind (await_fetch (recent_request c opts)) (\<lambda>res.
          if \<not> ok res then
            io_bind (await_fetch (inject_request c opts)) (\<lambda>injectRes.
              if \<not> ok injectRes then
                io_throw (JsError (''Context failed: '' @ digits (rs_status res)))
              else
                io_bind (await_json injectRes) (unwrap ''observations''))
          else
            io_bind (await_json res) (unwrap ''observations'')))
       (\<lambda>err. io_return (JArr []))"

definition addObservation :: "ClaudeMemClient \<Rightarrow> AddObservationParams \<Rightarrow> add_result io" where
  "addObservation c params =
     try_catch
       (io_bind (await_fetch (observation_request c params)) (\<lambda>res.
          if \<not> ok res then
            io_throw (JsError (''Add observation failed: '' @ digits (rs_status res)))
          else
            io_bind (await_json res) (\<lambda>data.
            io_bind (io_lift (get_prop data ''id'')) (\<lambda>i.
              io_return \<lparr>ar_success = True, ar_id = i\<rparr>))))
       (\<lambda>err. io_return \<lparr>ar_success = False, ar_id = None\<rparr>)"

definition getStats :: "ClaudeMemClient \<Rightarrow> json io" where
  "getStats c =
     try_catch
       (io_bind (await_fetch (stats_request c)) (\<lambda>res.
          if \<not> ok res then
            io_throw (JsError (''Stats failed: '' @ digits (rs_status res)))
          else
            await_json res))
       (\<lambda>err. io_return (JObj []))"

definition searchByType ::
  "ClaudeMemClient \<Rightarrow> obs_type option \<Rightarrow> ByTypeOptions \<Rightarrow> json io" where
  "searchByType c ty opts =
     try_catch
       (io_bind (await_fetch (by_type_request c ty opts)) (\<lambda>res.
          if \<not> ok res then
            io_throw (JsError (''Search by type failed: '' @ digits (rs_status res)))
          else
            io_bind (await_json res) (unwrap ''observations'')))
       (\<lambda>err. io_return (JArr []))"

text \<open>\<open>getDecisions(limit = 20)\<close>: the default applies when the argument is
  \<open>undefined\<close>. The method has no handler of its own.\<close>

definition getDecisions :: "ClaudeMemClient \<Rightarrow> number option \<Rightarrow> json io" where
  "getDecisions c limit =
     searchByType c (Some Decision)
       \<lparr>bo_limit = Some (case limit of None \<Rightarrow> Num 20 | Some n \<Rightarrow> n)\<rparr>"

text \<open>
  What the body of an \<open>async\<close> method returns: a value, or a promise it did not
  await. \<open>getHowItWorks\<close> returns \<open>this.search(...)\<close> from inside its
  \<open>try\<close> without \<open>await\<close>, so its handler does not see what that promise
  throws; the method settles as the promise does.
\<close>

datatype 'a returned = Value 'a | Promise "'a io"

definition settle :: "'a returned \<Rightarrow> 'a io" where
  "settle r = (case r of Value v \<Rightarrow> io_return v | Promise p \<Rightarrow> p)"

definition getHowItWorks :: "ClaudeMemClient \<Rightarrow> string \<Rightarrow> json io" where
  "getHowItWorks c q =
     io_bind
       (try_catch
          (io_bind (await_fetch (how_it_works_request c q)) (\<lambda>res.
             if \<not> ok res then
               io_return (Promise (search c q
                 \<lparr>so_limit = Some (Num 10), so_type = None,
                  so_projectPath = None, so_maxDate = None\<rparr>))
             else
               io_bind (await_json res) (\<lambda>data.
               io_bind (unwrap ''results'' data) (\<lambda>v.
                 io_return (Value v)))))
          (\<lambda>err. io_return (Value (JArr []))))
       settle"

section \<open>The capture hook of the plugin\<close>

record ClaudeMemConfig =
  cfg_apiUrl :: "string option"
  cfg_enabled :: "bool option"
  cfg_maxResults :: "number option"
  cfg_autoCapture :: "bool option"

text \<open>The event of the \<open>afterAgentResponse\<close> hook.\<close>

record AgentResponse =
  ev_response :: "string option"
  ev_sessionId :: "string option"

text \<open>\<open>ctx.config ?? {}\<close>\<close>

definition config_or_empty :: "ClaudeMemConfig option \<Rightarrow> ClaudeMemConfig" where
  "config_or_empty cfg =
     (case cfg of
        None \<Rightarrow> \<lparr>cfg_apiUrl = None, cfg_enabled = None,
                  cfg_maxResults = None, cfg_autoCapture = None\<rparr>
      | Some c \<Rightarrow> c)"

text \<open>
  The content captured: \<open>response.slice(0, 1000)\<close>. The length of a string is the
  number of its characters (JavaScript counts UTF-16 code units).
\<close>

definition capture_params :: "string \<Rightarrow> string option \<Rightarrow> AddObservationParams" where
  "capture_params response sessionId =
     \<lparr>ap_type = Some Discovery, ap_content = take 1000 response,
      ap_concepts = Some [], ap_files = Some [], ap_sessionId = sessionId\<rparr>"

text \<open>
  The hook, over the \<open>addObservation\<close> it calls: \<open>capture_hook add\<close> is the
  body of the hook with \<open>client.addObservation\<close> standing for \<open>add client\<close>,
  so that what the hook does with a call that throws can be stated.
\<close>

definition capture_hook ::
  "(ClaudeMemClient \<Rightarrow> AddObservationParams \<Rightarrow> add_result io)
     \<Rightarrow> ClaudeMemConfig option \<Rightarrow> AgentResponse \<Rightarrow> unit io" where
  "capture_hook add ctx_config event =
     (let config = config_or_empty ctx_config in
      if cfg_enabled config = Some False \<or> cfg_autoCapture config = Some False then
        io_return ()
      else
        let client = new_ClaudeMemClient (cfg_apiUrl config) in
        case ev_response event of
          None \<Rightarrow> io_return ()
        | Some response \<Rightarrow>
            if \<not> truthy_string response \<or> length response < 100 then io_return ()
            else
              try_catch
                (io_bind
                   (add client (capture_params response (ev_sessionId event)))
                   (\<lambda>r. io_return ()))
                (\<lambda>err. io_return ()))"

definition afterAgentResponse :: "ClaudeMemConfig option \<Rightarrow> AgentResponse \<Rightarrow> unit io" where
  "afterAgentResponse = capture_hook addObservation"

section \<open>Vocabulary of the properties\<close>

text \<open>
  A request failed: \<open>fetch\<close> rejected (no connection, timeout), or the status is
  not a success, or the body is not JSON.
\<close>

definition failed :: "outcome \<Rightarrow> bool" where
  "failed out =
     (case out of
        Rejected e \<Rightarrow> True
      | Resolved r \<Rightarrow> \<not> ok r \<or> isl (rs_json r))"

text \<open>
  Every request that a run of \<open>m\<close> added to the trace failed.
\<close>

definition every_request_failed :: "'a io \<Rightarrow> network \<Rightarrow> trace \<Rightarrow> bool" where
  "every_request_failed m net tr =
     list_all (\<lambda>(rq, out). failed out) (drop (length tr) (fst (m net tr)))"

text \<open>
  A body carries the list \<open>xs\<close> bare, or in an object under \<open>key\<close>.
\<close>

fun carries :: "string \<Rightarrow> json list \<Rightarrow> json \<Rightarrow> bool" where
  "carries key xs (JArr ys) = (ys = xs)"
| "carries key xs (JObj kvs) = (map_of kvs key = Some (JArr xs))"
| "carries key xs (JNull) = False"
| "carries key xs (JBool b) = False"
| "carries key xs (JNum n) = False"
| "carries key xs (JStr s) = False"

section \<open>The request of a method with one request\<close>

lemmas io_defs = try_catch_def io_bind_def await_fetch_def io_return_def io_throw_def
  await_json_def io_lift_def unwrap_def Let_def

lemma searchByType_trace:
  "fst (searchByType c ty opts net tr) =
     tr @ [(by_type_request c ty opts, net (length tr) (by_type_request c ty opts))]"
  by (auto simp add: searchByType_def io_defs split: outcome.splits sum.splits)

lemma search_trace:
  "fst (search c q opts net tr) =
     tr @ [(search_request c q opts, net (length tr) (search_request c q opts))]"
  by (auto simp add: search_def io_defs split: outcome.splits sum.splits)

section \<open>Query parameters of \<open>search\<close>\<close>

lemma spread_number_keys:
  "k' \<in> fst ` set (spread_number v k) \<longleftrightarrow> k' = k \<and> (\<exists>n. v = Some n \<and> truthy_number n)"
  by (auto simp add: spread_number_def split: option.splits)

lemma spread_string_keys:
  "k' \<in> fst ` set (spread_string v k) \<longleftrightarrow> k' = k \<and> (\<exists>s. v = Some s \<and> truthy_string s)"
  by (auto simp add: spread_string_def split: option.splits)

text \<open>
  C8. Every call of \<open>search\<close> issues one request, whose query is
  \<open>search_params\<close>. It always has the parameter \<open>query\<close>, with the query text; it
  has \<open>limit\<close>, \<open>type\<close> and \<open>max_date\<close> exactly when the option is present
  and truthy. A limit of \<open>0\<close> and an empty \<open>type\<close> are left out.
\<close>

theorem search_query_parameters:
  "fst (search c q opts net tr)
     = tr @ [(search_request c q opts, net (length tr) (search_request c q opts))]
   \<and> rq_query (search_request c q opts) = search_params q opts
   \<and> map_of (search_params q opts) ''query'' = Some q
   \<and> (''limit'' \<in> fst ` set (search_params q opts)
        \<longleftrightarrow> (\<exists>n. so_limit opts = Some n \<and> truthy_number n))
   \<and> (''type'' \<in> fst ` set (search_params q opts)
        \<longleftrightarrow> (\<exists>s. so_type opts = Some s \<and> truthy_string s))
   \<and> (''max_date'' \<in> fst ` set (search_params q opts)
        \<longleftrightarrow> (\<exists>s. so_maxDate opts = Some s \<and> truthy_string s))
   \<and> ''limit'' \<notin> fst ` set (search_params q (opts\<lparr>so_limit := Some (Num 0)\<rparr>))
   \<and> ''type'' \<notin> fst ` set (search_params q (opts\<lparr>so_type := Some ''''\<rparr>))"
proof -
  have keys: "\<And>k o'. k \<in> fst ` set (search_params q o') \<longleftrightarrow>
      k = ''query''
      \<or> k = ''limit'' \<and> (\<exists>n. so_limit o' = Some n \<and> truthy_number n)
      \<or> k = ''type'' \<and> (\<exists>s. so_type o' = Some s \<and> truthy_string s)
      \<or> k = ''max_date'' \<and> (\<exists>s. so_maxDate o' = Some s \<and> truthy_string s)"
    by (simp add: search_params_def image_Un spread_number_keys spread_string_keys)
  have q: "map_of (search_params q opts) ''query'' = Some q"
    by (simp add: search_params_def)
  have r: "rq_query (search_request c q opts) = search_params q opts"
    by (simp add: search_request_def)
  show ?thesis
    using search_trace q r by (simp add: keys truthy_string_def)
qed

section \<open>\<open>getDecisions\<close>\<close>

text \<open>
  C9. \<open>getDecisions(n)\<close> is \<open>searchByType("decision", {limit: n})\<close>: the same
  request, the same result. With no argument the limit is \<open>20\<close>. The one request
  it issues goes to \<open>/api/search/by-type\<close>; for \<open>n = 5\<close> its query is
  \<open>type=decision\<close>, \<open>limit=5\<close>.
\<close>

theorem getDecisions_searchByType:
  "getDecisions c (Some n) = searchByType c (Some Decision) \<lparr>bo_limit = Some n\<rparr>
   \<and> getDecisions c None = searchByType c (Some Decision) \<lparr>bo_limit = Some (Num 20)\<rparr>
   \<and> fst (getDecisions c (Some n) net tr)
       = tr @ [(by_type_request c (Some Decision) \<lparr>bo_limit = Some n\<rparr>,
                net (length tr) (by_type_request c (Some Decision) \<lparr>bo_limit = Some n\<rparr>))]
   \<and> by_type_request c (Some Decision) \<lparr>bo_limit = Some (Num 5)\<rparr>
       = \<lparr>rq_method = GET, rq_url = baseUrl c @ ''/api/search/by-type'',
          rq_query = [(''type'', ''decision''), (''limit'', ''5'')],
          rq_headers = [(''Content-Type'', ''application/json'')],
          rq_body = None, rq_timeout = 10000\<rparr>"
proof -
  have a: "getDecisions c (Some n) = searchByType c (Some Decision) \<lparr>bo_limit = Some n\<rparr>"
    by (simp add: getDecisions_def)
  have b: "getDecisions c None = searchByType c (Some Decision) \<lparr>bo_limit = Some (Num 20)\<rparr>"
    by (simp add: getDecisions_def)
  have d: "by_type_request c (Some Decision) \<lparr>bo_limit = Some (Num 5)\<rparr>
       = \<lparr>rq_method = GET, rq_url = baseUrl c @ ''/api/search/by-type'',
          rq_query = [(''type'', ''decision''), (''limit'', ''5'')],
          rq_headers = [(''Content-Type'', ''application/json'')],
          rq_body = None, rq_timeout = 10000\<rparr>"
    by (simp add: by_type_request_def by_type_params_def spread_number_def
          json_headers_def digits.simps)
  show ?thesis using a b d searchByType_trace by simp
qed

section \<open>The fallback of \<open>getRecentContext\<close>\<close>

text \<open>
  C2. When the request to \<open>/api/context/recent\<close> completes with a status that is
  not a success, \<open>getRecentContext\<close> issues one more request and no other: a GET
  to \<open>/api/context/inject\<close> with the same query. When that request fails too
  (rejected, a status that is not a success, or a body that is not JSON), the method
  returns the empty array.
\<close>

theorem recent_context_fallback:
  assumes "net (length tr) (recent_request c opts) = Resolved r" and "\<not> ok r"
  shows "fst (getRecentContext c opts net tr)
       = tr @ [(recent_request c opts, Resolved r),
               (inject_request c opts, net (Suc (length tr)) (inject_request c opts))]
     \<and> rq_method (inject_request c opts) = GET
     \<and> rq_url (inject_request c opts) = baseUrl c @ ''/api/context/inject''
     \<and> rq_query (inject_request c opts) = rq_query (recent_request c opts)
     \<and> (failed (net (Suc (length tr)) (inject_request c opts))
         \<longrightarrow> snd (getRecentContext c opts net tr) = Inr (JArr []))"
  using assms
  by (auto simp add: getRecentContext_def io_defs recent_request_def inject_request_def failed_def
      split: outcome.splits sum.splits prod.splits)

theorem recent_context_fallback_witness:
  "getRecentContext (new_ClaudeMemClient None)
      \<lparr>co_projectPath = Some ''/srv/app'', co_limit = Some (Num 5)\<rparr>
      (\<lambda>n rq. Resolved \<lparr>rs_status = 503, rs_json = Inr JNull\<rparr>) []
    = ([(\<lparr>rq_method = GET, rq_url = ''http://localhost:37777/api/context/recent'',
          rq_query = [(''project_path'', ''/srv/app''), (''limit'', ''5'')],
          rq_headers = [(''Content-Type'', ''application/json'')],
          rq_body = None, rq_timeout = 10000\<rparr>,
         Resolved \<lparr>rs_status = 503, rs_json = Inr JNull\<rparr>),
        (\<lparr>rq_method = GET, rq_url = ''http://localhost:37777/api/context/inject'',
          rq_query = [(''project_path'', ''/srv/app''), (''limit'', ''5'')],
          rq_headers = [(''Content-Type'', ''application/json'')],
          rq_body = None, rq_timeout = 10000\<rparr>,
         Resolved \<lparr>rs_status = 503, rs_json = Inr JNull\<rparr>)],
       Inr (JArr []))"
proof -
  let ?net = "\<lambda>(n::nat) (rq::request). Resolved \<lparr>rs_status = 503, rs_json = Inr JNull\<rparr>"
  let ?c = "new_ClaudeMemClient None"
  let ?o = "\<lparr>co_projectPath = Some ''/srv/app'', co_limit = Some (Num 5)\<rparr>"
  have h1: "?net (length ([]::trace)) (recent_request ?c ?o)
              = Resolved \<lparr>rs_status = 503, rs_json = Inr JNull\<rparr>"
    by simp
  have h2: "\<not> ok \<lparr>rs_status = 503, rs_json = Inr JNull\<rparr>"
    by (simp add: ok_def)
  have h3: "failed (?net (Suc (length ([]::trace))) (inject_request ?c ?o))"
    by (simp add: failed_def ok_def)
  have rq1: "recent_request ?c ?o
      = \<lparr>rq_method = GET, rq_url = ''http://localhost:37777/api/context/recent'',
          rq_query = [(''project_path'', ''/srv/app''), (''limit'', ''5'')],
          rq_headers = [(''Content-Type'', ''application/json'')],
          rq_body = None, rq_timeout = 10000\<rparr>"
    by (simp add: recent_request_def context_params_def spread_string_def spread_number_def
          truthy_string_def json_headers_def new_ClaudeMemClient_def strip_trailing_slash_def
          digits.simps)
  have rq2: "inject_request ?c ?o
      = \<lparr>rq_method = GET, rq_url = ''http://localhost:37777/api/context/inject'',
          rq_query = [(''project_path'', ''/srv/app''), (''limit'', ''5'')],
          rq_headers = [(''Content-Type'', ''application/json'')],
          rq_body = None, rq_timeout = 10000\<rparr>"
    by (simp add: inject_request_def context_params_def spread_string_def spread_number_def
          truthy_string_def json_headers_def new_ClaudeMemClient_def strip_trailing_slash_def
          digits.simps)
  from recent_context_fallback [of ?net "[]" ?c ?o, OF h1 h2] h3
  have "getRecentContext ?c ?o ?net []
      = ([(recent_request ?c ?o, Resolved \<lparr>rs_status = 503, rs_json = Inr JNull\<rparr>),
          (inject_request ?c ?o, Resolved \<lparr>rs_status = 503, rs_json = Inr JNull\<rparr>)],
         Inr (JArr []))"
    by (simp add: prod_eq_iff)
  then show ?thesis by (simp only: rq1 rq2)
qed

section \<open>The fallback of \<open>getHowItWorks\<close>\<close>

text \<open>
  C5. When the request to \<open>/api/how-it-works\<close> completes with a status that is
  not a success, \<open>getHowItWorks query\<close> calls \<open>search\<close> with that query and
  limit \<open>10\<close>, and returns what that call returns: from there on the run is the
  run of that call. Its request is the second and last of the run, with the query
  \<open>query=...\<close>, \<open>limit=10\<close>.
\<close>
theorem how_it_works_fallback:
  assumes "net (length tr) (how_it_works_request c q) = Resolved r" and "\<not> ok r"
  shows "getHowItWorks c q net tr
       = search c q \<lparr>so_limit = Some (Num 10), so_type = None,
                     so_projectPath = None, so_maxDate = None\<rparr>
           net (tr @ [(how_it_works_request c q, Resolved r)])
    \<and> fst (getHowItWorks c q net tr)
       = tr @ [(how_it_works_request c q, Resolved r),
               (search_request c q \<lparr>so_limit = Some (Num 10), so_type = None,
                                    so_projectPath = None, so_maxDate = None\<rparr>,
                net (Suc (length tr))
                  (search_request c q \<lparr>so_limit = Some (Num 10), so_type = None,
                                       so_projectPath = None, so_maxDate = None\<rparr>))]
    \<and> rq_query (search_request c q \<lparr>so_limit = Some (Num 10), so_type = None,
                                    so_projectPath = None, so_maxDate = None\<rparr>)
       = [(''query'', q), (''limit'', ''10'')]"
proof -
  have run: "getHowItWorks c q net tr
       = search c q \<lparr>so_limit = Some (Num 10), so_type = None,
                     so_projectPath = None, so_maxDate = None\<rparr>
           net (tr @ [(how_it_works_request c q, Resolved r)])"
    using assms by (simp add: getHowItWorks_def io_defs settle_def)
  have qs: "rq_query (search_request c q \<lparr>so_limit = Some (Num 10), so_type = None,
                                    so_projectPath = None, so_maxDate = None\<rparr>)
       = [(''query'', q), (''limit'', ''10'')]"
    by (simp add: search_request_def search_params_def spread_number_def spread_string_def
          digits.simps)
  show ?thesis
    using qs by (simp add: run search_trace)
qed

theorem how_it_works_fallback_witness:
  "getHowItWorks (new_ClaudeMemClient (Some ''http://mem:37777/'')) ''cache''
      (\<lambda>n rq. if n = 0 then Resolved \<lparr>rs_status = 404, rs_json = Inr JNull\<rparr>
               else Resolved \<lparr>rs_status = 200,
                      rs_json = Inr (JObj [(''results'', JArr [JStr ''lru''])])\<rparr>) []
    = ([(\<lparr>rq_method = GET, rq_url = ''http://mem:37777/api/how-it-works'',
          rq_query = [(''query'', ''cache'')],
          rq_headers = [(''Content-Type'', ''application/json'')],
          rq_body = None, rq_timeout = 10000\<rparr>,
         Resolved \<lparr>rs_status = 404, rs_json = Inr JNull\<rparr>),
        (\<lparr>rq_method = GET, rq_url = ''http://mem:37777/api/search'',
          rq_query = [(''query'', ''cache''), (''limit'', ''10'')],
          rq_headers = [(''Content-Type'', ''application/json'')],
          rq_body = None, rq_timeout = 10000\<rparr>,
         Resolved \<lparr>rs_status = 200,
           rs_json = Inr (JObj [(''results'', JArr [JStr ''lru''])])\<rparr>)],
       Inr (JArr [JStr ''lru'']))"
proof -
  let ?net = "\<lambda>(n::nat) (rq::request).
      if n = 0 then Resolved \<lparr>rs_status = 404, rs_json = Inr JNull\<rparr>
      else Resolved \<lparr>rs_status = 200,
             rs_json = Inr (JObj [(''results'', JArr [JStr ''lru''])])\<rparr>"
  let ?c = "new_ClaudeMemClient (Some ''http://mem:37777/'')"
  have h1: "?net (length ([]::trace)) (how_it_works_request ?c ''cache'')
              = Resolved \<lparr>rs_status = 404, rs_json = Inr JNull\<rparr>"
    by simp
  have h2: "\<not> ok \<lparr>rs_status = 404, rs_json = Inr JNull\<rparr>"
    by (simp add: ok_def)
  have "getHowItWorks ?c ''cache'' ?net []
      = search ?c ''cache'' \<lparr>so_limit = Some (Num 10), so_type = None,
                     so_projectPath = None, so_maxDate = None\<rparr>
           ?net ([] @ [(how_it_works_request ?c ''cache'',
                   Resolved \<lparr>rs_status = 404, rs_json = Inr JNull\<rparr>)])"
    using how_it_works_fallback [of ?net "[]" ?c "''cache''", OF h1 h2] by blast
  then show ?thesis
    by (simp add: search_def io_defs ok_def search_request_def how_it_works_request_def
          search_params_def spread_number_def spread_string_def json_headers_def
          new_ClaudeMemClient_def strip_trailing_slash_def digits.simps)
qed

section \<open>A primary request that throws\<close>

text \<open>
  C10. When the primary request of \<open>getRecentContext\<close> or of
  \<open>getHowItWorks\<close> throws (\<open>fetch\<close> rejects: no connection, timeout; or the
  body of a success response is not JSON), the run has that one request and no
  fallback request, and the method returns the empty array.
\<close>
theorem no_fallback_when_primary_throws:
  "(net (length tr) (recent_request c opts) = Rejected e
      \<or> (\<exists>r. net (length tr) (recent_request c opts) = Resolved r \<and> ok r \<and> rs_json r = Inl e)
     \<longrightarrow> getRecentContext c opts net tr
          = (tr @ [(recent_request c opts, net (length tr) (recent_request c opts))],
             Inr (JArr [])))
  \<and> (net (length tr) (how_it_works_request c q) = Rejected e
      \<or> (\<exists>r. net (length tr) (how_it_works_request c q) = Resolved r \<and> ok r \<and> rs_json r = Inl e)
     \<longrightarrow> getHowItWorks c q net tr
          = (tr @ [(how_it_works_request c q, net (length tr) (how_it_works_request c q))],
             Inr (JArr [])))"
  by (auto simp add: getRecentContext_def getHowItWorks_def io_defs settle_def)

theorem no_fallback_when_primary_throws_witness:
  "getRecentContext \<lparr>baseUrl = ''http://h''\<rparr> \<lparr>co_projectPath = None, co_limit = None\<rparr>
      (\<lambda>n rq. Rejected (JsError ''fetch failed'')) []
     = ([(recent_request \<lparr>baseUrl = ''http://h''\<rparr> \<lparr>co_projectPath = None, co_limit = None\<rparr>,
          Rejected (JsError ''fetch failed''))], Inr (JArr []))
   \<and> getHowItWorks \<lparr>baseUrl = ''http://h''\<rparr> ''auth''
      (\<lambda>n rq. Rejected (JsError ''fetch failed'')) []
     = ([(how_it_works_request \<lparr>baseUrl = ''http://h''\<rparr> ''auth'',
          Rejected (JsError ''fetch failed''))], Inr (JArr []))
   \<and> getRecentContext \<lparr>baseUrl = ''http://h''\<rparr> \<lparr>co_projectPath = None, co_limit = None\<rparr>
      (\<lambda>n rq. Resolved \<lparr>rs_status = 200, rs_json = Inl (JsError ''Unexpected token <'')\<rparr>) []
     = ([(recent_request \<lparr>baseUrl = ''http://h''\<rparr> \<lparr>co_projectPath = None, co_limit = None\<rparr>,
          Resolved \<lparr>rs_status = 200, rs_json = Inl (JsError ''Unexpected token <'')\<rparr>)],
        Inr (JArr []))
   \<and> getHowItWorks \<lparr>baseUrl = ''http://h''\<rparr> ''auth''
      (\<lambda>n rq. Resolved \<lparr>rs_status = 200, rs_json = Inl (JsError ''Unexpected token <'')\<rparr>) []
     = ([(how_it_works_request \<lparr>baseUrl = ''http://h''\<rparr> ''auth'',
          Resolved \<lparr>rs_status = 200, rs_json = Inl (JsError ''Unexpected token <'')\<rparr>)],
        Inr (JArr []))"
proof -
  let ?down = "\<lambda>(n::nat) (rq::request). Rejected (JsError ''fetch failed'')"
  let ?html = "\<lambda>(n::nat) (rq::request).
      Resolved \<lparr>rs_status = 200, rs_json = Inl (JsError ''Unexpected token <'')\<rparr>"
  have ok200: "ok \<lparr>rs_status = 200, rs_json = Inl (JsError ''Unexpected token <'')\<rparr>"
    by (simp add: ok_def)
  show ?thesis
    using no_fallback_when_primary_throws
            [of ?down "[]" "\<lparr>baseUrl = ''http://h''\<rparr>"
                "\<lparr>co_projectPath = None, co_limit = None\<rparr>" "JsError ''fetch failed''" "''auth''"]
          no_fallback_when_primary_throws
            [of ?html "[]" "\<lparr>baseUrl = ''http://h''\<rparr>"
                "\<lparr>co_projectPath = None, co_limit = None\<rparr>" "JsError ''Unexpected token <''" "''auth''"]
          ok200
    by simp
qed

section \<open>The two shapes of a response\<close>

lemma unwrap_carries:
  "carries key xs body \<Longrightarrow> unwrap key body net tr = (tr, Inr (JArr xs))"
  by (cases body) (simp_all add: unwrap_def io_bind_def io_lift_def io_return_def)

text \<open>
  C3. A success response whose body is the bare array \<open>xs\<close> and one whose body
  is an object holding \<open>xs\<close> under \<open>results\<close> (for \<open>search\<close> and
  \<open>getHowItWorks\<close>) or under \<open>observations\<close> (for \<open>getTimeline\<close>,
  \<open>getRecentContext\<close> on its primary and on its fallback request, and
  \<open>searchByType\<close>) decode to the same value: the method returns \<open>xs\<close>.
\<close>
theorem response_shape_tolerance:
  assumes "ok r" and "rs_json r = Inr body"
  shows "(carries ''results'' xs body \<longrightarrow>
            (net (length tr) (search_request c q so) = Resolved r
               \<longrightarrow> snd (search c q so net tr) = Inr (JArr xs))
          \<and> (net (length tr) (how_it_works_request c q) = Resolved r
               \<longrightarrow> snd (getHowItWorks c q net tr) = Inr (JArr xs)))
       \<and> (carries ''observations'' xs body \<longrightarrow>
            (net (length tr) (timeline_request c topts) = Resolved r
               \<longrightarrow> snd (getTimeline c topts net tr) = Inr (JArr xs))
          \<and> (net (length tr) (recent_request c co) = Resolved r
               \<longrightarrow> snd (getRecentContext c co net tr) = Inr (JArr xs))
          \<and> (\<forall>r0. net (length tr) (recent_request c co) = Resolved r0 \<and> \<not> ok r0
                 \<and> net (Suc (length tr)) (inject_request c co) = Resolved r
               \<longrightarrow> snd (getRecentContext c co net tr) = Inr (JArr xs))
          \<and> (net (length tr) (by_type_request c ty bo) = Resolved r
               \<longrightarrow> snd (searchByType c ty bo net tr) = Inr (JArr xs)))"
proof -
  have s: "carries ''results'' xs body \<Longrightarrow>
      net (length tr) (search_request c q so) = Resolved r \<Longrightarrow>
      snd (search c q so net tr) = Inr (JArr xs)"
    using assms
    by (simp add: search_def try_catch_def io_bind_def await_fetch_def await_json_def
          io_lift_def unwrap_carries)
  have h: "carries ''results'' xs body \<Longrightarrow>
      net (length tr) (how_it_works_request c q) = Resolved r \<Longrightarrow>
      snd (getHowItWorks c q net tr) = Inr (JArr xs)"
    using assms
    by (simp add: getHowItWorks_def settle_def try_catch_def io_bind_def await_fetch_def
          await_json_def io_lift_def io_return_def unwrap_carries)
  have t: "carries ''observations'' xs body \<Longrightarrow>
      net (length tr) (timeline_request c topts) = Resolved r \<Longrightarrow>
      snd (getTimeline c topts net tr) = Inr (JArr xs)"
    using assms
    by (simp add: getTimeline_def try_catch_def io_bind_def await_fetch_def await_json_def
          io_lift_def unwrap_carries)
  have r1: "carries ''observations'' xs body \<Longrightarrow>
      net (length tr) (recent_request c co) = Resolved r \<Longrightarrow>
      snd (getRecentContext c co net tr) = Inr (JArr xs)"
    using assms
    by (simp add: getRecentContext_def try_catch_def io_bind_def await_fetch_def
          await_json_def io_lift_def unwrap_carries)
  have r2: "\<And>r0. carries ''observations'' xs body \<Longrightarrow>
      net (length tr) (recent_request c co) = Resolved r0 \<Longrightarrow> \<not> ok r0 \<Longrightarrow>
      net (Suc (length tr)) (inject_request c co) = Resolved r \<Longrightarrow>
      snd (getRecentContext c co net tr) = Inr (JArr xs)"
    using assms
    by (simp add: getRecentContext_def try_catch_def io_bind_def await_fetch_def
          await_fetch_def await_json_def io_lift_def unwrap_carries)
  have b: "carries ''observations'' xs body \<Longrightarrow>
      net (length tr) (by_type_request c ty bo) = Resolved r \<Longrightarrow>
      snd (searchByType c ty bo net tr) = Inr (JArr xs)"
    using assms
    by (simp add: searchByType_def try_catch_def io_bind_def await_fetch_def await_json_def
          io_lift_def unwrap_carries)
  show ?thesis using s h t r1 r2 b by blast
qed


theorem response_shape_tolerance_witness:
  "snd (search \<lparr>baseUrl = ''http://h''\<rparr> ''q''
          \<lparr>so_limit = None, so_type = None, so_projectPath = None, so_maxDate = None\<rparr>
          (\<lambda>n rq. Resolved \<lparr>rs_status = 200, rs_json = Inr (JArr [JNum 1, JNum 2])\<rparr>) [])
     = Inr (JArr [JNum 1, JNum 2])
   \<and> snd (search \<lparr>baseUrl = ''http://h''\<rparr> ''q''
          \<lparr>so_limit = None, so_type = None, so_projectPath = None, so_maxDate = None\<rparr>
          (\<lambda>n rq. Resolved \<lparr>rs_status = 200,
             rs_json = Inr (JObj [(''results'', JArr [JNum 1, JNum 2])])\<rparr>) [])
     = Inr (JArr [JNum 1, JNum 2])
   \<and> snd (getHowItWorks \<lparr>baseUrl = ''http://h''\<rparr> ''q''
          (\<lambda>n rq. Resolved \<lparr>rs_status = 200, rs_json = Inr (JArr [JNum 1, JNum 2])\<rparr>) [])
     = Inr (JArr [JNum 1, JNum 2])
   \<and> snd (getHowItWorks \<lparr>baseUrl = ''http://h''\<rparr> ''q''
          (\<lambda>n rq. Resolved \<lparr>rs_status = 200,
             rs_json = Inr (JObj [(''results'', JArr [JNum 1, JNum 2])])\<rparr>) [])
     = Inr (JArr [JNum 1, JNum 2])
   \<and> snd (getTimeline \<lparr>baseUrl = ''http://h''\<rparr>
          \<lparr>to_observationId = None, to_limit = None, to_before = None, to_after = None\<rparr>
          (\<lambda>n rq. Resolved \<lparr>rs_status = 200, rs_json = Inr (JArr [JNum 1, JNum 2])\<rparr>) [])
     = Inr (JArr [JNum 1, JNum 2])
   \<and> snd (getTimeline \<lparr>baseUrl = ''http://h''\<rparr>
          \<lparr>to_observationId = None, to_limit = None, to_before = None, to_after = None\<rparr>
          (\<lambda>n rq. Resolved \<lparr>rs_status = 200,
             rs_json = Inr (JObj [(''observations'', JArr [JNum 1, JNum 2])])\<rparr>) [])
     = Inr (JArr [JNum 1, JNum 2])
   \<and> snd (getRecentContext \<lparr>baseUrl = ''http://h''\<rparr>
          \<lparr>co_projectPath = None, co_limit = None\<rparr>
          (\<lambda>n rq. Resolved \<lparr>rs_status = 200, rs_json = Inr (JArr [JNum 1, JNum 2])\<rparr>) [])
     = Inr (JArr [JNum 1, JNum 2])
   \<and> snd (getRecentContext \<lparr>baseUrl = ''http://h''\<rparr>
          \<lparr>co_projectPath = None, co_limit = None\<rparr>
          (\<lambda>n rq. Resolved \<lparr>rs_status = 200,
             rs_json = Inr (JObj [(''observations'', JArr [JNum 1, JNum 2])])\<rparr>) [])
     = Inr (JArr [JNum 1, JNum 2])
   \<and> snd (getRecentContext \<lparr>baseUrl = ''http://h''\<rparr>
          \<lparr>co_projectPath = None, co_limit = None\<rparr>
          (\<lambda>n rq. if n = 0 then Resolved \<lparr>rs_status = 404, rs_json = Inr JNull\<rparr>
                   else Resolved \<lparr>rs_status = 200,
                          rs_json = Inr (JArr [JNum 1, JNum 2])\<rparr>) [])
     = Inr (JArr [JNum 1, JNum 2])
   \<and> snd (getRecentContext \<lparr>baseUrl = ''http://h''\<rparr>
          \<lparr>co_projectPath = None, co_limit = None\<rparr>
          (\<lambda>n rq. if n = 0 then Resolved \<lparr>rs_status = 404, rs_json = Inr JNull\<rparr>
                   else Resolved \<lparr>rs_status = 200,
                          rs_json = Inr (JObj [(''observations'', JArr [JNum 1, JNum 2])])\<rparr>) [])
     = Inr (JArr [JNum 1, JNum 2])
   \<and> snd (searchByType \<lparr>baseUrl = ''http://h''\<rparr> (Some Bugfix) \<lparr>bo_limit = None\<rparr>
          (\<lambda>n rq. Resolved \<lparr>rs_status = 200, rs_json = Inr (JArr [JNum 1, JNum 2])\<rparr>) [])
     = Inr (JArr [JNum 1, JNum 2])
   \<and> snd (searchByType \<lparr>baseUrl = ''http://h''\<rparr> (Some Bugfix) \<lparr>bo_limit = None\<rparr>
          (\<lambda>n rq. Resolved \<lparr>rs_status = 200,
             rs_json = Inr (JObj [(''observations'', JArr [JNum 1, JNum 2])])\<rparr>) [])
     = Inr (JArr [JNum 1, JNum 2])"
proof -
  let ?c = "\<lparr>baseUrl = ''http://h''\<rparr>"
  let ?so = "\<lparr>so_limit = None, so_type = None, so_projectPath = None, so_maxDate = None\<rparr>"
  let ?to = "\<lparr>to_observationId = None, to_limit = None, to_before = None, to_after = None\<rparr>"
  let ?co = "\<lparr>co_projectPath = None, co_limit = None\<rparr>"
  let ?bo = "\<lparr>bo_limit = None\<rparr>"
  let ?xs = "[JNum 1, JNum 2]"
  let ?bare = "\<lparr>rs_status = 200, rs_json = Inr (JArr ?xs)\<rparr>"
  let ?res = "\<lparr>rs_status = 200, rs_json = Inr (JObj [(''results'', JArr ?xs)])\<rparr>"
  let ?obs = "\<lparr>rs_status = 200, rs_json = Inr (JObj [(''observations'', JArr ?xs)])\<rparr>"
  let ?after = "\<lambda>r (n::nat) (rq::request).
      if n = 0 then Resolved \<lparr>rs_status = 404, rs_json = Inr JNull\<rparr> else Resolved r"
  have oks: "ok ?bare" "ok ?res" "ok ?obs"
       "\<not> ok \<lparr>rs_status = 404, rs_json = Inr JNull\<rparr>"
    by (simp_all add: ok_def)
  note always = response_shape_tolerance
    [where tr = "[]" and c = ?c and q = "''q''" and so = ?so and topts = ?to and co = ?co
       and ty = "Some Bugfix" and bo = ?bo and xs = ?xs]
  show ?thesis
    using always [where r = ?bare and body = "JArr ?xs" and net = "\<lambda>n rq. Resolved ?bare"]
          always [where r = ?res and body = "JObj [(''results'', JArr ?xs)]"
                    and net = "\<lambda>n rq. Resolved ?res"]
          always [where r = ?obs and body = "JObj [(''observations'', JArr ?xs)]"
                    and net = "\<lambda>n rq. Resolved ?obs"]
          always [where r = ?bare and body = "JArr ?xs" and net = "?after ?bare"]
          always [where r = ?obs and body = "JObj [(''observations'', JArr ?xs)]"
                    and net = "?after ?obs"]
          oks
    by simp
qed

section \<open>A body that carries no list\<close>

text \<open>
  C4. The claim: on a success response whose body is neither a list nor an object
  with the expected field, a list-returning method returns the empty array. The
  source evaluates \<open>data.results ?? data ?? []\<close>: for the object
  \<open>{"error": "index unavailable"}\<close> the field is \<open>undefined\<close>, the body
  itself is not nullish, and the method returns the body. \<open>search\<close>,
  \<open>getHowItWorks\<close>, \<open>getTimeline\<close>, \<open>getRecentContext\<close> and
  \<open>searchByType\<close> all return that object, not the empty array.
\<close>

theorem unrelated_object_returned:
  "snd (search \<lparr>baseUrl = ''http://h''\<rparr> ''q''
          \<lparr>so_limit = None, so_type = None, so_projectPath = None, so_maxDate = None\<rparr>
          (\<lambda>n rq. Resolved \<lparr>rs_status = 200,
             rs_json = Inr (JObj [(''error'', JStr ''index unavailable'')])\<rparr>) [])
     = Inr (JObj [(''error'', JStr ''index unavailable'')])
   \<and> snd (getHowItWorks \<lparr>baseUrl = ''http://h''\<rparr> ''q''
          (\<lambda>n rq. Resolved \<lparr>rs_status = 200,
             rs_json = Inr (JObj [(''error'', JStr ''index unavailable'')])\<rparr>) [])
     = Inr (JObj [(''error'', JStr ''index unavailable'')])
   \<and> snd (getTimeline \<lparr>baseUrl = ''http://h''\<rparr>
          \<lparr>to_observationId = None, to_limit = None, to_before = None, to_after = None\<rparr>
          (\<lambda>n rq. Resolved \<lparr>rs_status = 200,
             rs_json = Inr (JObj [(''error'', JStr ''index unavailable'')])\<rparr>) [])
     = Inr (JObj [(''error'', JStr ''index unavailable'')])
   \<and> snd (getRecentContext \<lparr>baseUrl = ''http://h''\<rparr>
          \<lparr>co_projectPath = None, co_limit = None\<rparr>
          (\<lambda>n rq. Resolved \<lparr>rs_status = 200,
             rs_json = Inr (JObj [(''error'', JStr ''index unavailable'')])\<rparr>) [])
     = Inr (JObj [(''error'', JStr ''index unavailable'')])
   \<and> snd (searchByType \<lparr>baseUrl = ''http://h''\<rparr> (Some Bugfix) \<lparr>bo_limit = None\<rparr>
          (\<lambda>n rq. Resolved \<lparr>rs_status = 200,
             rs_json = Inr (JObj [(''error'', JStr ''index unavailable'')])\<rparr>) [])
     = Inr (JObj [(''error'', JStr ''index unavailable'')])
   \<and> get_prop (JObj [(''error'', JStr ''index unavailable'')]) ''results'' = Inr None
   \<and> get_prop (JObj [(''error'', JStr ''index unavailable'')]) ''observations'' = Inr None"
  by (simp add: search_def getHowItWorks_def getTimeline_def getRecentContext_def
        searchByType_def settle_def io_defs ok_def)

section \<open>\<open>addObservation\<close>\<close>

lemma addObservation_trace:
  "fst (addObservation c params net tr)
     = tr @ [(observation_request c params, net (length tr) (observation_request c params))]"
  by (auto simp add: addObservation_def io_defs split: outcome.splits sum.splits)

text \<open>
  C7. \<open>addObservation\<close> issues one POST to \<open>/api/sessions/observations\<close>. When
  \<open>concepts\<close> and \<open>files\<close> are omitted, the body has both as empty arrays;
  for \<open>{type: "bugfix", content: "fixed X"}\<close> the body is
  \<open>{"type":"bugfix","content":"fixed X","concepts":[],"files":[]}\<close>. On a
  success response whose body is an object with \<open>id\<close> \<open>42\<close> the method
  returns \<open>{success: true, id: 42}\<close>.
\<close>

theorem addObservation_body_and_id:
  "fst (addObservation c params net tr)
     = tr @ [(observation_request c params, net (length tr) (observation_request c params))]
   \<and> rq_method (observation_request c params) = POST
   \<and> rq_url (observation_request c params) = baseUrl c @ ''/api/sessions/observations''
   \<and> rq_body (observation_request c params) = Some (observation_body params)
   \<and> (ap_concepts params = None
        \<longrightarrow> get_prop (observation_body params) ''concepts'' = Inr (Some (JArr [])))
   \<and> (ap_files params = None
        \<longrightarrow> get_prop (observation_body params) ''files'' = Inr (Some (JArr [])))
   \<and> observation_body \<lparr>ap_type = Some Bugfix, ap_content = ''fixed X'', ap_concepts = None,
                        ap_files = None, ap_sessionId = None\<rparr>
       = JObj [(''type'', JStr ''bugfix''), (''content'', JStr ''fixed X''),
               (''concepts'', JArr []), (''files'', JArr [])]
   \<and> (net (length tr) (observation_request c params) = Resolved r \<and> ok r
        \<and> rs_json r = Inr (JObj kvs) \<and> map_of kvs ''id'' = Some (JNum 42)
        \<longrightarrow> snd (addObservation c params net tr)
             = Inr \<lparr>ar_success = True, ar_id = Some (JNum 42)\<rparr>)"
proof -
  have req: "rq_method (observation_request c params) = POST
      \<and> rq_url (observation_request c params) = baseUrl c @ ''/api/sessions/observations''
      \<and> rq_body (observation_request c params) = Some (observation_body params)"
    by (simp add: observation_request_def)
  have cs: "ap_concepts params = None
      \<Longrightarrow> get_prop (observation_body params) ''concepts'' = Inr (Some (JArr []))"
    by (cases "ap_type params") (simp_all add: observation_body_def)
  have fs: "ap_files params = None
      \<Longrightarrow> get_prop (observation_body params) ''files'' = Inr (Some (JArr []))"
    by (cases "ap_type params") (simp_all add: observation_body_def)
  have ex: "observation_body \<lparr>ap_type = Some Bugfix, ap_content = ''fixed X'',
        ap_concepts = None, ap_files = None, ap_sessionId = None\<rparr>
       = JObj [(''type'', JStr ''bugfix''), (''content'', JStr ''fixed X''),
               (''concepts'', JArr []), (''files'', JArr [])]"
    by (simp add: observation_body_def)
  have ret: "net (length tr) (observation_request c params) = Resolved r \<Longrightarrow> ok r
      \<Longrightarrow> rs_json r = Inr (JObj kvs) \<Longrightarrow> map_of kvs ''id'' = Some (JNum 42)
      \<Longrightarrow> snd (addObservation c params net tr)
             = Inr \<lparr>ar_success = True, ar_id = Some (JNum 42)\<rparr>"
    by (simp add: addObservation_def io_defs)
  show ?thesis
    using addObservation_trace req cs fs ex ret by blast
qed

theorem addObservation_body_and_id_witness:
  "addObservation \<lparr>baseUrl = ''http://h''\<rparr>
      \<lparr>ap_type = Some Bugfix, ap_content = ''fixed X'', ap_concepts = None,
        ap_files = None, ap_sessionId = None\<rparr>
      (\<lambda>n rq. Resolved \<lparr>rs_status = 201, rs_json = Inr (JObj [(''id'', JNum 42)])\<rparr>) []
    = ([(\<lparr>rq_method = POST, rq_url = ''http://h/api/sessions/observations'',
           rq_query = [], rq_headers = [(''Content-Type'', ''application/json'')],
           rq_body = Some (JObj [(''type'', JStr ''bugfix''), (''content'', JStr ''fixed X''),
                                 (''concepts'', JArr []), (''files'', JArr [])]),
           rq_timeout = 10000\<rparr>,
         Resolved \<lparr>rs_status = 201, rs_json = Inr (JObj [(''id'', JNum 42)])\<rparr>)],
       Inr \<lparr>ar_success = True, ar_id = Some (JNum 42)\<rparr>)
   \<and> get_prop (observation_body
         \<lparr>ap_type = Some Bugfix, ap_content = ''fixed X'', ap_concepts = None,
           ap_files = None, ap_sessionId = None\<rparr>) ''concepts'' = Inr (Some (JArr []))
   \<and> get_prop (observation_body
         \<lparr>ap_type = Some Bugfix, ap_content = ''fixed X'', ap_concepts = None,
           ap_files = None, ap_sessionId = None\<rparr>) ''files'' = Inr (Some (JArr []))"
proof -
  let ?c = "\<lparr>baseUrl = ''http://h''\<rparr>"
  let ?p = "\<lparr>ap_type = Some Bugfix, ap_content = ''fixed X'', ap_concepts = None,
             ap_files = None, ap_sessionId = None\<rparr>"
  let ?r = "\<lparr>rs_status = 201, rs_json = Inr (JObj [(''id'', JNum 42)])\<rparr>"
  have h: "ok ?r" "map_of [(''id'', JNum 42)] ''id'' = Some (JNum 42)"
    by (simp_all add: ok_def)
  have rq: "observation_request ?c ?p
      = \<lparr>rq_method = POST, rq_url = ''http://h/api/sessions/observations'',
           rq_query = [], rq_headers = [(''Content-Type'', ''application/json'')],
           rq_body = Some (JObj [(''type'', JStr ''bugfix''), (''content'', JStr ''fixed X''),
                                 (''concepts'', JArr []), (''files'', JArr [])]),
           rq_timeout = 10000\<rparr>"
    by (simp add: observation_request_def observation_body_def json_headers_def)
  from addObservation_body_and_id
         [where c = ?c and params = ?p and tr = "[]" and r = ?r
            and kvs = "[(''id'', JNum 42)]" and net = "\<lambda>n rq. Resolved ?r"] h
  have "addObservation ?c ?p (\<lambda>n rq. Resolved ?r) []
          = ([(observation_request ?c ?p, Resolved ?r)],
             Inr \<lparr>ar_success = True, ar_id = Some (JNum 42)\<rparr>)
      \<and> get_prop (observation_body ?p) ''concepts'' = Inr (Some (JArr []))
      \<and> get_prop (observation_body ?p) ''files'' = Inr (Some (JArr []))"
    by (simp add: prod_eq_iff)
  then show ?thesis by (simp only: rq)
qed

section \<open>The capture hook\<close>

lemma capture_body:
  "observation_body (capture_params response sid)
     = JObj ([(''type'', JStr ''discovery''), (''content'', JStr (take 1000 response)),
              (''concepts'', JArr []), (''files'', JArr [])]
             @ (case sid of None \<Rightarrow> [] | Some s \<Rightarrow> [(''session_id'', JStr s)]))"
  by (cases sid) (simp_all add: observation_body_def capture_params_def)

lemma capture_hook_returns:
  "snd (capture_hook add cfg ev net tr) = Inr ()"
  by (auto simp add: capture_hook_def io_defs split: option.splits prod.splits sum.splits)

text \<open>
  C6. With \<open>enabled\<close> and \<open>autoCapture\<close> not \<open>false\<close> and a response of
  at least 100 characters, the hook makes one call of \<open>addObservation\<close>, on a
  client for the configured URL, with type \<open>discovery\<close>, the first 1000
  characters of the response as content, empty \<open>concepts\<close> and \<open>files\<close>,
  and the session id of the event: the run of the hook has the requests of that call
  and no other, which is one POST with that body. With a gate \<open>false\<close>, no
  response, or a response shorter than 100 characters, the hook returns at once:
  it makes no call and issues no request. In every case the hook returns normally,
  whatever the call of \<open>addObservation\<close> throws.
\<close>

theorem afterAgentResponse_capture:
  "(cfg_enabled (config_or_empty cfg) \<noteq> Some False
      \<and> cfg_autoCapture (config_or_empty cfg) \<noteq> Some False
      \<and> ev_response ev = Some response \<and> 100 \<le> length response
     \<longrightarrow> fst (afterAgentResponse cfg ev net tr)
           = fst (addObservation (new_ClaudeMemClient (cfg_apiUrl (config_or_empty cfg)))
                    (capture_params response (ev_sessionId ev)) net tr)
         \<and> fst (afterAgentResponse cfg ev net tr)
           = tr @ [(observation_request (new_ClaudeMemClient (cfg_apiUrl (config_or_empty cfg)))
                      (capture_params response (ev_sessionId ev)),
                    net (length tr)
                      (observation_request (new_ClaudeMemClient (cfg_apiUrl (config_or_empty cfg)))
                         (capture_params response (ev_sessionId ev))))]
         \<and> observation_body (capture_params response (ev_sessionId ev))
           = JObj ([(''type'', JStr ''discovery''), (''content'', JStr (take 1000 response)),
                    (''concepts'', JArr []), (''files'', JArr [])]
                   @ (case ev_sessionId ev of None \<Rightarrow> []
                      | Some s \<Rightarrow> [(''session_id'', JStr s)]))
         \<and> length (take 1000 response) \<le> 1000)
   \<and> (cfg_enabled (config_or_empty cfg) = Some False
      \<or> cfg_autoCapture (config_or_empty cfg) = Some False
      \<or> ev_response ev = None
      \<or> (\<exists>short. ev_response ev = Some short \<and> length short < 100)
     \<longrightarrow> afterAgentResponse cfg ev net tr = (tr, Inr ())
         \<and> capture_hook add cfg ev net tr = (tr, Inr ()))
   \<and> snd (afterAgentResponse cfg ev net tr) = Inr ()
   \<and> snd (capture_hook add cfg ev net tr) = Inr ()"
proof -
  have go: "cfg_enabled (config_or_empty cfg) \<noteq> Some False
      \<Longrightarrow> cfg_autoCapture (config_or_empty cfg) \<noteq> Some False
      \<Longrightarrow> ev_response ev = Some response \<Longrightarrow> 100 \<le> length response
      \<Longrightarrow> fst (afterAgentResponse cfg ev net tr)
           = fst (addObservation (new_ClaudeMemClient (cfg_apiUrl (config_or_empty cfg)))
                    (capture_params response (ev_sessionId ev)) net tr)"
    by (auto simp add: afterAgentResponse_def capture_hook_def truthy_string_def
          try_catch_def io_bind_def io_return_def Let_def split: prod.splits sum.splits)
  have stop: "cfg_enabled (config_or_empty cfg) = Some False
      \<or> cfg_autoCapture (config_or_empty cfg) = Some False
      \<or> ev_response ev = None
      \<or> (\<exists>short. ev_response ev = Some short \<and> length short < 100)
     \<Longrightarrow> afterAgentResponse cfg ev net tr = (tr, Inr ())
         \<and> capture_hook add cfg ev net tr = (tr, Inr ())"
    by (auto simp add: afterAgentResponse_def capture_hook_def io_return_def Let_def)
  have ret: "snd (afterAgentResponse cfg ev net tr) = Inr ()"
    by (simp add: afterAgentResponse_def capture_hook_returns)
  show ?thesis
    using go stop ret capture_hook_returns [of add cfg ev net tr]
      addObservation_trace capture_body
    by simp
qed

theorem afterAgentResponse_capture_witness:
  "fst (afterAgentResponse
          (Some \<lparr>cfg_apiUrl = Some ''http://mem:37777/'', cfg_enabled = Some True,
                  cfg_maxResults = None, cfg_autoCapture = None\<rparr>)
          \<lparr>ev_response = Some (replicate 1200 CHR ''a''), ev_sessionId = Some ''s1''\<rparr>
          (\<lambda>n rq. Rejected (JsError ''fetch failed'')) [])
     = [(\<lparr>rq_method = POST, rq_url = ''http://mem:37777/api/sessions/observations'',
           rq_query = [], rq_headers = [(''Content-Type'', ''application/json'')],
           rq_body = Some (JObj [(''type'', JStr ''discovery''),
                                 (''content'', JStr (replicate 1000 CHR ''a'')),
                                 (''concepts'', JArr []), (''files'', JArr []),
                                 (''session_id'', JStr ''s1'')]),
           rq_timeout = 10000\<rparr>,
         Rejected (JsError ''fetch failed''))]
   \<and> fst (afterAgentResponse
          (Some \<lparr>cfg_apiUrl = None, cfg_enabled = None,
                  cfg_maxResults = None, cfg_autoCapture = Some False\<rparr>)
          \<lparr>ev_response = Some (replicate 1200 CHR ''a''), ev_sessionId = Some ''s1''\<rparr>
          (\<lambda>n rq. Rejected (JsError ''fetch failed'')) []) = []
   \<and> fst (afterAgentResponse None
          \<lparr>ev_response = Some (replicate 99 CHR ''a''), ev_sessionId = Some ''s1''\<rparr>
          (\<lambda>n rq. Rejected (JsError ''fetch failed'')) []) = []
   \<and> snd (capture_hook (\<lambda>c p. io_throw (NonError JNull)) None
          \<lparr>ev_response = Some (replicate 1200 CHR ''a''), ev_sessionId = None\<rparr>
          (\<lambda>n rq. Rejected (JsError ''fetch failed'')) []) = Inr ()"
proof -
  let ?on = "Some \<lparr>cfg_apiUrl = Some ''http://mem:37777/'', cfg_enabled = Some True,
                  cfg_maxResults = None, cfg_autoCapture = None\<rparr>"
  let ?off = "Some \<lparr>cfg_apiUrl = None, cfg_enabled = None,
                  cfg_maxResults = None, cfg_autoCapture = Some False\<rparr>"
  let ?long = "\<lparr>ev_response = Some (replicate 1200 CHR ''a''), ev_sessionId = Some ''s1''\<rparr>"
  let ?short = "\<lparr>ev_response = Some (replicate 99 CHR ''a''), ev_sessionId = Some ''s1''\<rparr>"
  let ?anon = "\<lparr>ev_response = Some (replicate 1200 CHR ''a''), ev_sessionId = None\<rparr>"
  let ?down = "\<lambda>(n::nat) (rq::request). Rejected (JsError ''fetch failed'')"
  have rq: "observation_request (new_ClaudeMemClient (Some ''http://mem:37777/''))
              (capture_params (replicate 1200 CHR ''a'') (Some ''s1''))
      = \<lparr>rq_method = POST, rq_url = ''http://mem:37777/api/sessions/observations'',
           rq_query = [], rq_headers = [(''Content-Type'', ''application/json'')],
           rq_body = Some (JObj [(''type'', JStr ''discovery''),
                                 (''content'', JStr (replicate 1000 CHR ''a'')),
                                 (''concepts'', JArr []), (''files'', JArr []),
                                 (''session_id'', JStr ''s1'')]),
           rq_timeout = 10000\<rparr>"
    by (simp add: observation_request_def observation_body_def capture_params_def
          json_headers_def new_ClaudeMemClient_def strip_trailing_slash_def)
  have a: "fst (afterAgentResponse ?on ?long ?down [])
      = [(observation_request (new_ClaudeMemClient (Some ''http://mem:37777/''))
              (capture_params (replicate 1200 CHR ''a'') (Some ''s1'')),
          Rejected (JsError ''fetch failed''))]"
    using afterAgentResponse_capture
            [where cfg = ?on and ev = ?long and net = ?down and tr = "[]"
               and response = "replicate 1200 CHR ''a''" and add = addObservation,
             THEN conjunct1, rule_format, THEN conjunct2, THEN conjunct1]
    by (simp add: config_or_empty_def)
  have b: "fst (afterAgentResponse ?off ?long ?down []) = []"
    using afterAgentResponse_capture
            [where cfg = ?off and ev = ?long and net = ?down and tr = "[]"
               and add = addObservation]
    by (simp add: config_or_empty_def)
  have c: "fst (afterAgentResponse None ?short ?down []) = []"
    using afterAgentResponse_capture
            [where cfg = None and ev = ?short and net = ?down and tr = "[]"
               and add = addObservation]
    by simp
  have d: "snd (capture_hook (\<lambda>c p. io_throw (NonError JNull)) None ?anon ?down []) = Inr ()"
    using afterAgentResponse_capture
            [where cfg = None and ev = ?anon and net = ?down and tr = "[]"
               and add = "\<lambda>c p. io_throw (NonError JNull)"]
    by simp
  show ?thesis
    using a b c d by (simp only: rq)
qed

section \<open>No exception escapes a public method\<close>

lemma getStatus_safe:
  "(\<exists>v. snd (getStatus c net tr) = Inr v)
   \<and> (every_request_failed (getStatus c) net tr
        \<longrightarrow> (\<exists>msg. snd (getStatus c net tr)
               = Inr \<lparr>st_running = False, st_version = None, st_error = Some msg\<rparr>))"
  by (auto simp add: getStatus_def every_request_failed_def failed_def io_defs
      split: outcome.splits sum.splits)

lemma search_safe:
  "(\<exists>v. snd (search c q so net tr) = Inr v)
   \<and> (every_request_failed (search c q so) net tr
        \<longrightarrow> snd (search c q so net tr) = Inr (JArr []))"
  by (auto simp add: search_def every_request_failed_def failed_def io_defs
      split: outcome.splits sum.splits)

lemma getTimeline_safe:
  "(\<exists>v. snd (getTimeline c topts net tr) = Inr v)
   \<and> (every_request_failed (getTimeline c topts) net tr
        \<longrightarrow> snd (getTimeline c topts net tr) = Inr (JArr []))"
  by (auto simp add: getTimeline_def every_request_failed_def failed_def io_defs
      split: outcome.splits sum.splits)

lemma getRecentContext_safe:
  "(\<exists>v. snd (getRecentContext c co net tr) = Inr v)
   \<and> (every_request_failed (getRecentContext c co) net tr
        \<longrightarrow> snd (getRecentContext c co net tr) = Inr (JArr []))"
  by (auto simp add: getRecentContext_def every_request_failed_def failed_def io_defs
      split: outcome.splits sum.splits)

lemma addObservation_safe:
  "(\<exists>v. snd (addObservation c params net tr) = Inr v)
   \<and> (every_request_failed (addObservation c params) net tr
        \<longrightarrow> snd (addObservation c params net tr)
             = Inr \<lparr>ar_success = False, ar_id = None\<rparr>)"
  by (auto simp add: addObservation_def every_request_failed_def failed_def io_defs
      split: outcome.splits sum.splits)

lemma getStats_safe:
  "(\<exists>v. snd (getStats c net tr) = Inr v)
   \<and> (every_request_failed (getStats c) net tr
        \<longrightarrow> snd (getStats c net tr) = Inr (JObj []))"
  by (auto simp add: getStats_def every_request_failed_def failed_def io_defs
      split: outcome.splits sum.splits)

lemma searchByType_safe:
  "(\<exists>v. snd (searchByType c ty bo net tr) = Inr v)
   \<and> (every_request_failed (searchByType c ty bo) net tr
        \<longrightarrow> snd (searchByType c ty bo net tr) = Inr (JArr []))"
  by (auto simp add: searchByType_def every_request_failed_def failed_def io_defs
      split: outcome.splits sum.splits)

lemma getHowItWorks_safe:
  "(\<exists>v. snd (getHowItWorks c q net tr) = Inr v)
   \<and> (every_request_failed (getHowItWorks c q) net tr
        \<longrightarrow> snd (getHowItWorks c q net tr) = Inr (JArr []))"
  by (auto simp add: getHowItWorks_def search_def settle_def every_request_failed_def
        failed_def io_defs
      split: outcome.splits sum.splits)

text \<open>
  C1. No public method of the client throws, whatever the network does: every run
  ends with a returned value. When every request the method issued failed
  (\<open>fetch\<close> rejected on a timeout or a network error, the status was not a
  success, or the body was not JSON), the value is the safe default: the empty
  array for \<open>search\<close>, \<open>getTimeline\<close>, \<open>getRecentContext\<close>,
  \<open>searchByType\<close>, \<open>getDecisions\<close> and \<open>getHowItWorks\<close>,
  \<open>{success: false}\<close> for \<open>addObservation\<close>, \<open>{running: false, error}\<close>
  for \<open>getStatus\<close>, and the empty object for \<open>getStats\<close>. For the two
  methods with a fallback the requests issued are the primary one and, after a status
  that is not a success, the fallback one.
\<close>

theorem no_exception_escapes:
  "((\<exists>v. snd (getStatus c net tr) = Inr v)
    \<and> (\<exists>v. snd (search c q so net tr) = Inr v)
    \<and> (\<exists>v. snd (getTimeline c topts net tr) = Inr v)
    \<and> (\<exists>v. snd (getRecentContext c co net tr) = Inr v)
    \<and> (\<exists>v. snd (addObservation c params net tr) = Inr v)
    \<and> (\<exists>v. snd (getStats c net tr) = Inr v)
    \<and> (\<exists>v. snd (searchByType c ty bo net tr) = Inr v)
    \<and> (\<exists>v. snd (getDecisions c limit net tr) = Inr v)
    \<and> (\<exists>v. snd (getHowItWorks c q net tr) = Inr v))
   \<and> (every_request_failed (getStatus c) net tr
        \<longrightarrow> (\<exists>msg. snd (getStatus c net tr)
               = Inr \<lparr>st_running = False, st_version = None, st_error = Some msg\<rparr>))
   \<and> (every_request_failed (search c q so) net tr
        \<longrightarrow> snd (search c q so net tr) = Inr (JArr []))
   \<and> (every_request_failed (getTimeline c topts) net tr
        \<longrightarrow> snd (getTimeline c topts net tr) = Inr (JArr []))
   \<and> (every_request_failed (getRecentContext c co) net tr
        \<longrightarrow> snd (getRecentContext c co net tr) = Inr (JArr []))
   \<and> (every_request_failed (addObservation c params) net tr
        \<longrightarrow> snd (addObservation c params net tr)
             = Inr \<lparr>ar_success = False, ar_id = None\<rparr>)
   \<and> (every_request_failed (getStats c) net tr
        \<longrightarrow> snd (getStats c net tr) = Inr (JObj []))
   \<and> (every_request_failed (searchByType c ty bo) net tr
        \<longrightarrow> snd (searchByType c ty bo net tr) = Inr (JArr []))
   \<and> (every_request_failed (getDecisions c limit) net tr
        \<longrightarrow> snd (getDecisions c limit net tr) = Inr (JArr []))
   \<and> (every_request_failed (getHowItWorks c q) net tr
        \<longrightarrow> snd (getHowItWorks c q net tr) = Inr (JArr []))"
proof -
  have d: "(\<exists>v. snd (getDecisions c limit net tr) = Inr v)
     \<and> (every_request_failed (getDecisions c limit) net tr
          \<longrightarrow> snd (getDecisions c limit net tr) = Inr (JArr []))"
    unfolding getDecisions_def by (rule searchByType_safe)
  show ?thesis
    using getStatus_safe [of c net tr] search_safe [of c q so net tr]
      getTimeline_safe [of c topts net tr] getRecentContext_safe [of c co net tr]
      addObservation_safe [of c params net tr] getStats_safe [of c net tr]
      searchByType_safe [of c ty bo net tr] d getHowItWorks_safe [of c q net tr]
    by blast
qed

theorem no_exception_escapes_witness:
  "(\<exists>msg. snd (getStatus \<lparr>baseUrl = ''http://h''\<rparr>
        (\<lambda>n rq. Resolved \<lparr>rs_status = 500, rs_json = Inr JNull\<rparr>) [])
      = Inr \<lparr>st_running = False, st_version = None, st_error = Some msg\<rparr>)
   \<and> snd (search \<lparr>baseUrl = ''http://h''\<rparr> ''q''
        \<lparr>so_limit = None, so_type = None, so_projectPath = None, so_maxDate = None\<rparr>
        (\<lambda>n rq. Resolved \<lparr>rs_status = 500, rs_json = Inr JNull\<rparr>) []) = Inr (JArr [])
   \<and> snd (getTimeline \<lparr>baseUrl = ''http://h''\<rparr>
        \<lparr>to_observationId = None, to_limit = None, to_before = None, to_after = None\<rparr>
        (\<lambda>n rq. Resolved \<lparr>rs_status = 500, rs_json = Inr JNull\<rparr>) []) = Inr (JArr [])
   \<and> snd (getRecentContext \<lparr>baseUrl = ''http://h''\<rparr>
        \<lparr>co_projectPath = None, co_limit = None\<rparr>
        (\<lambda>n rq. Resolved \<lparr>rs_status = 500, rs_json = Inr JNull\<rparr>) []) = Inr (JArr [])
   \<and> snd (addObservation \<lparr>baseUrl = ''http://h''\<rparr>
        \<lparr>ap_type = Some Bugfix, ap_content = ''fixed X'', ap_concepts = None,
          ap_files = None, ap_sessionId = None\<rparr>
        (\<lambda>n rq. Resolved \<lparr>rs_status = 500, rs_json = Inr JNull\<rparr>) [])
      = Inr \<lparr>ar_success = False, ar_id = None\<rparr>
   \<and> snd (getStats \<lparr>baseUrl = ''http://h''\<rparr>
        (\<lambda>n rq. Resolved \<lparr>rs_status = 500, rs_json = Inr JNull\<rparr>) []) = Inr (JObj [])
   \<and> snd (searchByType \<lparr>baseUrl = ''http://h''\<rparr> None \<lparr>bo_limit = None\<rparr>
        (\<lambda>n rq. Resolved \<lparr>rs_status = 500, rs_json = Inr JNull\<rparr>) []) = Inr (JArr [])
   \<and> snd (getDecisions \<lparr>baseUrl = ''http://h''\<rparr> None
        (\<lambda>n rq. Resolved \<lparr>rs_status = 500, rs_json = Inr JNull\<rparr>) []) = Inr (JArr [])
   \<and> snd (getHowItWorks \<lparr>baseUrl = ''http://h''\<rparr> ''q''
        (\<lambda>n rq. Resolved \<lparr>rs_status = 500, rs_json = Inr JNull\<rparr>) []) = Inr (JArr [])"
proof -
  let ?c = "\<lparr>baseUrl = ''http://h''\<rparr>"
  let ?so = "\<lparr>so_limit = None, so_type = None, so_projectPath = None, so_maxDate = None\<rparr>"
  let ?to = "\<lparr>to_observationId = None, to_limit = None, to_before = None, to_after = None\<rparr>"
  let ?co = "\<lparr>co_projectPath = None, co_limit = None\<rparr>"
  let ?p = "\<lparr>ap_type = Some Bugfix, ap_content = ''fixed X'', ap_concepts = None,
             ap_files = None, ap_sessionId = None\<rparr>"
  let ?bo = "\<lparr>bo_limit = None\<rparr>"
  let ?net = "\<lambda>(n::nat) (rq::request). Resolved \<lparr>rs_status = 500, rs_json = Inr JNull\<rparr>"
  have h1: "every_request_failed (getStatus ?c) ?net []"
    by (simp add: every_request_failed_def getStatus_def io_defs failed_def ok_def)
  have h2: "every_request_failed (search ?c ''q'' ?so) ?net []"
    by (simp add: every_request_failed_def search_def io_defs failed_def ok_def)
  have h3: "every_request_failed (getTimeline ?c ?to) ?net []"
    by (simp add: every_request_failed_def getTimeline_def io_defs failed_def ok_def)
  have h4: "every_request_failed (getRecentContext ?c ?co) ?net []"
    by (simp add: every_request_failed_def getRecentContext_def io_defs failed_def ok_def)
  have h5: "every_request_failed (addObservation ?c ?p) ?net []"
    by (simp add: every_request_failed_def addObservation_def io_defs failed_def ok_def)
  have h6: "every_request_failed (getStats ?c) ?net []"
    by (simp add: every_request_failed_def getStats_def io_defs failed_def ok_def)
  have h7: "every_request_failed (searchByType ?c None ?bo) ?net []"
    by (simp add: every_request_failed_def searchByType_def io_defs failed_def ok_def)
  have h8: "every_request_failed (getDecisions ?c None) ?net []"
    by (simp add: every_request_failed_def getDecisions_def searchByType_def io_defs
          failed_def ok_def)
  have h9: "every_request_failed (getHowItWorks ?c ''q'') ?net []"
    by (simp add: every_request_failed_def getHowItWorks_def search_def settle_def io_defs
          failed_def ok_def)
  show ?thesis
    using no_exception_escapes
            [where c = ?c and net = ?net and tr = "[]" and q = "''q''" and so = ?so
               and topts = ?to and co = ?co and params = ?p and ty = None and bo = ?bo
               and limit = None]
          h1 h2 h3 h4 h5 h6 h7 h8 h9
    by blast
qed

end
